theory Spec2Isabelle
  imports Main "HOL-Library.AList"
begin

section \<open>Values and objects of the mock library\<close>

text \<open>
  The library (\<^verbatim>\<open>src/index.ts\<close>) builds mock functions (\<^verbatim>\<open>createBaseMock\<close>) and wraps
  them in proxies that generate nested mocks on property access (\<^verbatim>\<open>createMock\<close>).
  Function objects created by the library live in a heap, a list of cells addressed by
  their index; every other value is immutable data.

  Scope of the model. The mock function \<^verbatim>\<open>fn\<close> is a strict-mode function object: besides
  the properties that the library or a test assigns to it, it owns \<^verbatim>\<open>length\<close>, \<^verbatim>\<open>name\<close>
  and \<^verbatim>\<open>prototype\<close> from its creation and inherits the properties of
  \<^verbatim>\<open>Function.prototype\<close> and \<^verbatim>\<open>Object.prototype\<close>, as ECMAScript defines them. Giving
  \<^verbatim>\<open>fn\<close> another prototype object, and reading the built-in properties of functions
  from outside the library, end a run of the model with \<open>Unmodelled\<close>. Numbers are
  integers. A promise is the settled value it was created with; thenables are not
  represented.
\<close>

type_synonym addr = nat

text \<open>Property keys are strings or symbols; \<^verbatim>\<open>Symbol.hasInstance\<close> is told apart.\<close>

datatype pkey = SKey string | Symbol nat | HasInstance

datatype mname =
    MockImplementation | MockImplementationOnce
  | MockReturnValue | MockReturnValueOnce
  | MockResolvedValue | MockResolvedValueOnce
  | MockRejectedValue | MockRejectedValueOnce
  | MockClear | MockReset

datatype val =
    JUndefined
  | JNull
  | JBool bool
  | JNum int
  | JStr string
  | JArr "val list"
  | JObj "(string \<times> val) list"
  | JTypeError string \<comment> \<open>\<^verbatim>\<open>new TypeError(msg)\<close> thrown by the library\<close>
  | RuntimeTypeError \<comment> \<open>the TypeError the runtime raises on an illegal access\<close>
  | Fulfilled val \<comment> \<open>\<^verbatim>\<open>Promise.resolve(v)\<close>\<close>
  | Rejected val \<comment> \<open>\<^verbatim>\<open>Promise.reject(e)\<close>\<close>
  | Closure nat "(string \<times> val) list" \<comment> \<open>a function from outside the library, with its own properties\<close>
  | Fn addr \<comment> \<open>the function \<^verbatim>\<open>fn\<close> of \<^verbatim>\<open>createBaseMock\<close>\<close>
  | Proxy addr int \<comment> \<open>\<^verbatim>\<open>new Proxy(baseMock, handler)\<close>: the target and the handler's \<^verbatim>\<open>depth\<close>\<close>
  | Method mname addr \<comment> \<open>the closure \<^verbatim>\<open>fn.mockImplementation\<close> etc. of the mock at the address\<close>
  | Builtin pkey \<comment> \<open>what the prototype chain of a function holds under the key\<close>
  | PrototypeOf addr \<comment> \<open>the object created as \<^verbatim>\<open>fn.prototype\<close> with the function at the address\<close>

datatype jstype = TUndefined | TObject | TBoolean | TNumber | TString | TFunction

fun typeof :: "val \<Rightarrow> jstype" where
  "typeof JUndefined = TUndefined"
| "typeof JNull = TObject"
| "typeof (JBool _) = TBoolean"
| "typeof (JNum _) = TNumber"
| "typeof (JStr _) = TString"
| "typeof (JArr _) = TObject"
| "typeof (JObj _) = TObject"
| "typeof (JTypeError _) = TObject"
| "typeof RuntimeTypeError = TObject"
| "typeof (Fulfilled _) = TObject"
| "typeof (Rejected _) = TObject"
| "typeof (Closure _ _) = TFunction"
| "typeof (Fn _) = TFunction"
| "typeof (Proxy _ _) = TFunction"
| "typeof (Method _ _) = TFunction"
| "typeof (Builtin _) = TFunction"
| "typeof (PrototypeOf _) = TObject"

fun truthy :: "val \<Rightarrow> bool" where
  "truthy JUndefined = False"
| "truthy JNull = False"
| "truthy (JBool b) = b"
| "truthy (JNum n) = (n \<noteq> 0)"
| "truthy (JStr s) = (s \<noteq> [])"
| "truthy _ = True"

fun isArray :: "val \<Rightarrow> bool" where
  "isArray (JArr _) = True"
| "isArray _ = False"

text \<open>
  A behaviour held by a mock (\<^verbatim>\<open>impl\<close>, \<^verbatim>\<open>defaultImpl\<close>, the entries of \<^verbatim>\<open>onceQueue\<close>):
  a function handed in by the caller, or one of the closures the library creates itself.
\<close>

datatype impl =
    Given val \<comment> \<open>\<^verbatim>\<open>f\<close> of \<^verbatim>\<open>mockImplementation(f)\<close>\<close>
  | ReturnValue val \<comment> \<open>\<^verbatim>\<open>() => v\<close>\<close>
  | ResolvedValue val \<comment> \<open>\<^verbatim>\<open>() => Promise.resolve(v)\<close>\<close>
  | RejectedValue val \<comment> \<open>\<^verbatim>\<open>() => Promise.reject(e)\<close>\<close>
  | Nested int \<comment> \<open>\<^verbatim>\<open>() => createMock(depth + 1)\<close>, with the captured \<^verbatim>\<open>depth\<close>\<close>

text \<open>
  A cell is the function object \<^verbatim>\<open>fn\<close> with the variables its closures share. \<open>props\<close>
  are the properties assigned to \<^verbatim>\<open>fn\<close>, in insertion order; each is writable,
  enumerable and configurable. The three properties \<^verbatim>\<open>fn\<close> is created with are kept
  apart, since they are not: \<^verbatim>\<open>length\<close> (0, as \<^verbatim>\<open>fn\<close> has a rest parameter only) and
  \<^verbatim>\<open>name\<close> (\<^verbatim>\<open>"fn"\<close>) are read-only and never change, and \<^verbatim>\<open>prototype\<close> is
  writable but neither enumerable nor configurable.
\<close>

record mock_cell =
  props :: "(pkey \<times> val) list"
  prototype :: val
  impl :: "impl option"
  defaultImpl :: "impl option"
  onceQueue :: "impl list"

type_synonym heap = "mock_cell list"

text \<open>
  Functions from outside the library are run through an environment: \<open>env f args h\<close> is
  what calling \<open>f\<close> with \<open>args\<close> in heap \<open>h\<close> returns (\<open>Inr\<close>) or throws (\<open>Inl\<close>), and
  the heap it leaves. Such a function may do anything to the heap, in particular call the
  mock that runs it. Every function handed to a mock as a behaviour is run through the
  environment, also when it is a mock itself. The \<^verbatim>\<open>this\<close> of a call is not represented.
\<close>

type_synonym outcome = "val + val"
type_synonym env = "val \<Rightarrow> val list \<Rightarrow> heap \<Rightarrow> outcome \<times> heap"

text \<open>
  How an access to a member ends when it does not succeed: it throws, or it leaves what
  is modelled.
\<close>

datatype failure = Thrown val | Unmodelled

definition get_prop :: "(pkey \<times> val) list \<Rightarrow> pkey \<Rightarrow> val" where
  "get_prop ps k = (case map_of ps k of None \<Rightarrow> JUndefined | Some v \<Rightarrow> v)"

definition set_prop :: "pkey \<Rightarrow> val \<Rightarrow> (pkey \<times> val) list \<Rightarrow> (pkey \<times> val) list" where
  "set_prop k v ps = AList.update k v ps"

definition target_get :: "heap \<Rightarrow> addr \<Rightarrow> pkey \<Rightarrow> val" where
  "target_get h a k = (if a < length h then get_prop (props (h ! a)) k else JUndefined)"

definition target_set :: "addr \<Rightarrow> pkey \<Rightarrow> val \<Rightarrow> heap \<Rightarrow> heap" where
  "target_set a k v h = (if a < length h then h[a := (h ! a)\<lparr>props := set_prop k v (props (h ! a))\<rparr>] else h)"

text \<open>
  \<open>target_get\<close> and \<open>target_set\<close> look at the assigned properties only; they serve for
  \<^verbatim>\<open>fn.mock\<close>, which is neither a property \<^verbatim>\<open>fn\<close> is created with nor an inherited one.
  The general accesses \<^verbatim>\<open>target[prop]\<close> and \<^verbatim>\<open>target[prop] = value\<close> follow.
\<close>

definition own_native :: "mock_cell \<Rightarrow> pkey \<Rightarrow> val option" where
  "own_native c k =
     (if k = SKey ''length'' then Some (JNum 0)
      else if k = SKey ''name'' then Some (JStr ''fn'')
      else if k = SKey ''prototype'' then Some (prototype c)
      else None)"

text \<open>
  The properties a function inherits: writable data properties holding built-in
  functions, the read-only \<^verbatim>\<open>Function.prototype[Symbol.hasInstance]\<close>, the accessors
  \<^verbatim>\<open>caller\<close> and \<^verbatim>\<open>arguments\<close>, whose getter and setter throw for a strict function, and
  the accessor \<^verbatim>\<open>__proto__\<close>.
\<close>

datatype inh_kind = Writable | ReadOnly | Poisoned | ProtoAccessor

definition inherited_functions :: "string list" where
  "inherited_functions =
     [''apply'', ''bind'', ''call'', ''toString'', ''constructor'',
      ''hasOwnProperty'', ''isPrototypeOf'', ''propertyIsEnumerable'', ''toLocaleString'',
      ''valueOf'', ''__defineGetter__'', ''__defineSetter__'', ''__lookupGetter__'',
      ''__lookupSetter__'']"

definition inherited :: "pkey \<Rightarrow> inh_kind option" where
  "inherited k =
     (case k of
        SKey s \<Rightarrow>
          if s \<in> set inherited_functions then Some Writable
          else if s = ''caller'' \<or> s = ''arguments'' then Some Poisoned
          else if s = ''__proto__'' then Some ProtoAccessor
          else None
      | HasInstance \<Rightarrow> Some ReadOnly
      | Symbol n \<Rightarrow> None)"

text \<open>\<^verbatim>\<open>target[prop]\<close>: own properties first, then the prototype chain.\<close>

definition target_read :: "heap \<Rightarrow> addr \<Rightarrow> pkey \<Rightarrow> failure + val" where
  "target_read h a k =
     (if a < length h then
        (case own_native (h ! a) k of
           Some v \<Rightarrow> Inr v
         | None \<Rightarrow>
             (case map_of (props (h ! a)) k of
                Some v \<Rightarrow> Inr v
              | None \<Rightarrow>
                  (case inherited k of
                     None \<Rightarrow> Inr JUndefined
                   | Some Poisoned \<Rightarrow> Inl (Thrown RuntimeTypeError)
                   | Some _ \<Rightarrow> Inr (Builtin k))))
      else Inr JUndefined)"

text \<open>
  \<^verbatim>\<open>target[prop] = value\<close> in strict code: an own read-only property, an inherited
  read-only property and a throwing setter raise a TypeError; a writable own property is
  updated; otherwise the property is created on the target. The setter of \<^verbatim>\<open>__proto__\<close>
  ignores a value that is neither an object nor null.
\<close>

definition target_write :: "addr \<Rightarrow> pkey \<Rightarrow> val \<Rightarrow> heap \<Rightarrow> failure + heap" where
  "target_write a k v h =
     (if a < length h then
        (if k = SKey ''length'' \<or> k = SKey ''name'' then Inl (Thrown RuntimeTypeError)
         else if k = SKey ''prototype'' then Inr (h[a := (h ! a)\<lparr>prototype := v\<rparr>])
         else if map_of (props (h ! a)) k \<noteq> None then Inr (target_set a k v h)
         else (case inherited k of
                 None \<Rightarrow> Inr (target_set a k v h)
               | Some Writable \<Rightarrow> Inr (target_set a k v h)
               | Some ReadOnly \<Rightarrow> Inl (Thrown RuntimeTypeError)
               | Some Poisoned \<Rightarrow> Inl (Thrown RuntimeTypeError)
               | Some ProtoAccessor \<Rightarrow>
                   if typeof v = TObject \<or> typeof v = TFunction then Inl Unmodelled else Inr h))
      else Inr h)"

section \<open>createBaseMock\<close>

definition createBaseMock :: "impl option \<Rightarrow> addr \<Rightarrow> mock_cell" where
  "createBaseMock dflt a =
     \<lparr>props =
        [(SKey ''mock'', JObj [(''calls'', JArr []), (''results'', JArr [])]),
         (SKey ''mockImplementation'', Method MockImplementation a),
         (SKey ''mockImplementationOnce'', Method MockImplementationOnce a),
         (SKey ''mockReturnValue'', Method MockReturnValue a),
         (SKey ''mockReturnValueOnce'', Method MockReturnValueOnce a),
         (SKey ''mockResolvedValue'', Method MockResolvedValue a),
         (SKey ''mockResolvedValueOnce'', Method MockResolvedValueOnce a),
         (SKey ''mockRejectedValue'', Method MockRejectedValue a),
         (SKey ''mockRejectedValueOnce'', Method MockRejectedValueOnce a),
         (SKey ''mockClear'', Method MockClear a),
         (SKey ''mockReset'', Method MockReset a)],
      prototype = PrototypeOf a,
      impl = dflt, defaultImpl = dflt, onceQueue = []\<rparr>"

text \<open>
  \<^verbatim>\<open>m.<log>.push(x)\<close> on the value \<open>m\<close> of \<^verbatim>\<open>fn.mock\<close>: the new value of \<^verbatim>\<open>fn.mock\<close>, or
  \<open>None\<close> when the access raises a TypeError (\<open>m\<close> is null or undefined, or has no array
  under that name). A log that is an object with a \<^verbatim>\<open>push\<close> of its own, and a
  function-valued \<open>m\<close>, are outside the model.
\<close>

definition push_log :: "string \<Rightarrow> val \<Rightarrow> val \<Rightarrow> val option" where
  "push_log name x m =
     (case m of
        JObj fs \<Rightarrow>
          (case map_of fs name of
             Some (JArr xs) \<Rightarrow> Some (JObj (AList.update name (JArr (xs @ [x])) fs))
           | _ \<Rightarrow> None)
      | _ \<Rightarrow> None)"

section \<open>createMock\<close>

definition MAX_DEPTH :: int where
  "MAX_DEPTH = 10"

definition createMock :: "int \<Rightarrow> heap \<Rightarrow> val \<times> heap" where
  "createMock depth h =
     (if depth > MAX_DEPTH then (JUndefined, h)
      else (Proxy (length h) depth, h @ [createBaseMock (Some (Nested depth)) (length h)]))"

text \<open>\<^verbatim>\<open>Promise.resolve(v)\<close> returns \<open>v\<close> itself when it is a promise.\<close>

fun promise_resolve :: "val \<Rightarrow> val" where
  "promise_resolve (Fulfilled v) = Fulfilled v"
| "promise_resolve (Rejected e) = Rejected e"
| "promise_resolve v = Fulfilled v"

section \<open>Invoking a mock\<close>

text \<open>
  \<^verbatim>\<open>next ?? impl\<close>: the queue entry unless it is null or undefined (\<^verbatim>\<open>shift\<close> returns
  undefined on an empty queue).
\<close>

fun nullish :: "impl option \<Rightarrow> bool" where
  "nullish None = True"
| "nullish (Some (Given JUndefined)) = True"
| "nullish (Some (Given JNull)) = True"
| "nullish _ = False"

text \<open>
  Lines 35--37 of \<^verbatim>\<open>fn\<close>: push the arguments on \<^verbatim>\<open>mock.calls\<close>, shift the queue, choose
  the behaviour. \<open>None\<close> when the push raises a TypeError. The heap of the result is the
  one the chosen behaviour starts in.
\<close>

definition enter :: "addr \<Rightarrow> val list \<Rightarrow> heap \<Rightarrow> (impl option \<times> heap) option" where
  "enter a args h =
     (case push_log ''calls'' (JArr args) (target_get h a (SKey ''mock'')) of
        None \<Rightarrow> None
      | Some m \<Rightarrow>
          (let h0 = target_set a (SKey ''mock'') m h;
               q = onceQueue (h0 ! a);
               next = (case q of [] \<Rightarrow> None | f # _ \<Rightarrow> Some f);
               toCall = (if nullish next then impl (h0 ! a) else next)
           in Some (toCall, h0[a := (h0 ! a)\<lparr>onceQueue := tl q\<rparr>])))"

text \<open>Line 39: \<^verbatim>\<open>toCall ? toCall.apply(this, args) : undefined\<close>.\<close>

fun run_impl :: "env \<Rightarrow> impl option \<Rightarrow> val list \<Rightarrow> heap \<Rightarrow> outcome \<times> heap" where
  "run_impl env None args h = (Inr JUndefined, h)"
| "run_impl env (Some (Given f)) args h =
     (if truthy f then env f args h else (Inr JUndefined, h))"
| "run_impl env (Some (ReturnValue v)) args h = (Inr v, h)"
| "run_impl env (Some (ResolvedValue v)) args h = (Inr (promise_resolve v), h)"
| "run_impl env (Some (RejectedValue e)) args h = (Inr (Rejected e), h)"
| "run_impl env (Some (Nested depth)) args h =
     (let (v, h1) = createMock (depth + 1) h in (Inr v, h1))"

definition result_entry :: "outcome \<Rightarrow> val" where
  "result_entry out =
     (case out of
        Inr res \<Rightarrow> JObj [(''type'', JStr ''return''), (''value'', res)]
      | Inl err \<Rightarrow> JObj [(''type'', JStr ''throw''), (''value'', err)])"

text \<open>
  Lines 40--45: push the outcome on \<^verbatim>\<open>mock.results\<close>, then return or rethrow. When the
  push raises, in the \<^verbatim>\<open>try\<close> block or in the \<^verbatim>\<open>catch\<close> block, the push of the
  \<^verbatim>\<open>catch\<close> block raises too, and that TypeError leaves \<^verbatim>\<open>fn\<close>.
\<close>

definition leave :: "addr \<Rightarrow> outcome \<Rightarrow> heap \<Rightarrow> outcome \<times> heap" where
  "leave a out h =
     (case push_log ''results'' (result_entry out) (target_get h a (SKey ''mock'')) of
        None \<Rightarrow> (Inl RuntimeTypeError, h)
      | Some m \<Rightarrow> (out, target_set a (SKey ''mock'') m h))"

definition invoke :: "env \<Rightarrow> addr \<Rightarrow> val list \<Rightarrow> heap \<Rightarrow> outcome \<times> heap" where
  "invoke env a args h =
     (case enter a args h of
        None \<Rightarrow> (Inl RuntimeTypeError, h)
      | Some (toCall, h1) \<Rightarrow>
          (let (out, h2) = run_impl env toCall args h1 in leave a out h2))"

section \<open>The configuration methods\<close>

fun arg0 :: "val list \<Rightarrow> val" where
  "arg0 [] = JUndefined"
| "arg0 (x # _) = x"

definition mockImplementation :: "addr \<Rightarrow> impl \<Rightarrow> heap \<Rightarrow> heap" where
  "mockImplementation a f h = h[a := (h ! a)\<lparr>impl := Some f\<rparr>]"

definition mockImplementationOnce :: "addr \<Rightarrow> impl \<Rightarrow> heap \<Rightarrow> heap" where
  "mockImplementationOnce a f h = h[a := (h ! a)\<lparr>onceQueue := onceQueue (h ! a) @ [f]\<rparr>]"

text \<open>
  \<^verbatim>\<open>fn.mock.calls = []; fn.mock.results = []\<close>. \<open>None\<close> when \<^verbatim>\<open>fn.mock\<close> is not a
  record (the assignment raises on null, undefined and primitive values; array- and
  function-valued \<^verbatim>\<open>fn.mock\<close> are outside the model).
\<close>

definition mockClear :: "addr \<Rightarrow> heap \<Rightarrow> heap option" where
  "mockClear a h =
     (case target_get h a (SKey ''mock'') of
        JObj fs \<Rightarrow>
          Some (target_set a (SKey ''mock'')
                  (JObj (AList.update ''results'' (JArr []) (AList.update ''calls'' (JArr []) fs))) h)
      | _ \<Rightarrow> None)"

definition mockReset :: "addr \<Rightarrow> heap \<Rightarrow> heap option" where
  "mockReset a h =
     (case mockClear a h of
        None \<Rightarrow> None
      | Some h1 \<Rightarrow> Some (h1[a := (h1 ! a)\<lparr>impl := defaultImpl (h1 ! a), onceQueue := []\<rparr>]))"

text \<open>
  Calling one of the method closures; each returns \<^verbatim>\<open>fn\<close>. The closures reach each other
  through properties of \<^verbatim>\<open>fn\<close> (\<^verbatim>\<open>fn.mockReturnValue\<close> calls \<^verbatim>\<open>fn.mockImplementation\<close>,
  \<^verbatim>\<open>fn.mockReset\<close> calls \<^verbatim>\<open>fn.mockClear\<close>); these properties are taken to hold the
  closures that \<^verbatim>\<open>createBaseMock\<close> stored there.
\<close>

fun call_method :: "mname \<Rightarrow> addr \<Rightarrow> val list \<Rightarrow> heap \<Rightarrow> outcome \<times> heap" where
  "call_method MockImplementation a args h = (Inr (Fn a), mockImplementation a (Given (arg0 args)) h)"
| "call_method MockImplementationOnce a args h = (Inr (Fn a), mockImplementationOnce a (Given (arg0 args)) h)"
| "call_method MockReturnValue a args h = (Inr (Fn a), mockImplementation a (ReturnValue (arg0 args)) h)"
| "call_method MockReturnValueOnce a args h = (Inr (Fn a), mockImplementationOnce a (ReturnValue (arg0 args)) h)"
| "call_method MockResolvedValue a args h = (Inr (Fn a), mockImplementation a (ResolvedValue (arg0 args)) h)"
| "call_method MockResolvedValueOnce a args h = (Inr (Fn a), mockImplementationOnce a (ResolvedValue (arg0 args)) h)"
| "call_method MockRejectedValue a args h = (Inr (Fn a), mockImplementation a (RejectedValue (arg0 args)) h)"
| "call_method MockRejectedValueOnce a args h = (Inr (Fn a), mockImplementationOnce a (RejectedValue (arg0 args)) h)"
| "call_method MockClear a args h =
     (case mockClear a h of None \<Rightarrow> (Inl RuntimeTypeError, h) | Some h1 \<Rightarrow> (Inr (Fn a), h1))"
| "call_method MockReset a args h =
     (case mockReset a h of None \<Rightarrow> (Inl RuntimeTypeError, h) | Some h1 \<Rightarrow> (Inr (Fn a), h1))"

text \<open>Calling a value: a proxy has no \<^verbatim>\<open>apply\<close> trap, so the call reaches its target.\<close>

fun call_value :: "env \<Rightarrow> val \<Rightarrow> val list \<Rightarrow> heap \<Rightarrow> outcome \<times> heap" where
  "call_value env (Proxy a d) args h = invoke env a args h"
| "call_value env (Fn a) args h = invoke env a args h"
| "call_value env (Method m a) args h = call_method m a args h"
| "call_value env (Closure n ps) args h = env (Closure n ps) args h"
| "call_value env (Builtin k) args h = env (Builtin k) args h"
| "call_value env v args h = (Inl RuntimeTypeError, h)"

section \<open>The proxy handler\<close>

definition passthrough :: "string list" where
  "passthrough =
     [''mock'', ''mockImplementation'', ''mockImplementationOnce'', ''mockResolvedValue'',
      ''mockResolvedValueOnce'', ''mockRejectedValue'', ''mockRejectedValueOnce'',
      ''mockReturnValue'', ''mockReturnValueOnce'', ''mockClear'', ''mockReset'',
      ''mockRestore'']"

fun is_symbol :: "pkey \<Rightarrow> bool" where
  "is_symbol (Symbol _) = True"
| "is_symbol HasInstance = True"
| "is_symbol (SKey _) = False"

text \<open>
  The \<^verbatim>\<open>get\<close> trap: \<open>Inl\<close> when an access to the target does not succeed. Every branch
  of the trap starts by reading \<^verbatim>\<open>target[prop]\<close>, so that read comes first here.
\<close>

definition handler_get :: "int \<Rightarrow> addr \<Rightarrow> pkey \<Rightarrow> heap \<Rightarrow> failure + val \<times> heap" where
  "handler_get depth target prop h =
     (case target_read h target prop of
        Inl f \<Rightarrow> Inl f
      | Inr v \<Rightarrow>
          if prop \<in> SKey ` set passthrough then Inr (v, h)
          else if is_symbol prop then Inr (v, h)
          else if v \<noteq> JUndefined then Inr (v, h)
          else (let (nestedMock, h1) = createMock (depth + 1) h
                in case target_write target prop nestedMock h1 of
                     Inl f \<Rightarrow> Inl f
                   | Inr h2 \<Rightarrow> Inr (nestedMock, h2)))"

definition handler_set :: "addr \<Rightarrow> pkey \<Rightarrow> val \<Rightarrow> heap \<Rightarrow> failure + heap" where
  "handler_set target prop v h = target_write target prop v h"

text \<open>
  The \<^verbatim>\<open>ownKeys\<close> trap returns \<^verbatim>\<open>Object.keys(target)\<close>: the string keys of the enumerable
  own properties, which are the assigned ones, in insertion order (the runtime lists
  keys that are array indices first; that reordering is not represented).
\<close>

fun string_keys :: "(pkey \<times> val) list \<Rightarrow> string list" where
  "string_keys [] = []"
| "string_keys ((SKey s, _) # ps) = s # string_keys ps"
| "string_keys ((Symbol _, _) # ps) = string_keys ps"
| "string_keys ((HasInstance, _) # ps) = string_keys ps"

definition handler_ownKeys :: "addr \<Rightarrow> heap \<Rightarrow> string list" where
  "handler_ownKeys target h = (if target < length h then string_keys (props (h ! target)) else [])"

text \<open>
  Enumerating the proxy (\<^verbatim>\<open>Object.keys\<close>, \<^verbatim>\<open>Reflect.ownKeys\<close>, \<^verbatim>\<open>for\<close>-\<^verbatim>\<open>in\<close>) asks the
  trap and then checks its result against the target: every own key of the target that is
  not configurable has to be in it, or the runtime raises a TypeError. The one such key of
  \<^verbatim>\<open>fn\<close> is \<^verbatim>\<open>prototype\<close>.
\<close>

definition nonconfigurable_own :: "string list" where
  "nonconfigurable_own = [''prototype'']"

definition proxy_ownKeys :: "addr \<Rightarrow> heap \<Rightarrow> failure + string list" where
  "proxy_ownKeys target h =
     (if set nonconfigurable_own \<subseteq> set (handler_ownKeys target h)
      then Inr (handler_ownKeys target h)
      else Inl (Thrown RuntimeTypeError))"

text \<open>
  Reading and writing a member of a value, as a test does with \<^verbatim>\<open>m[key]\<close>. Of a function
  from outside the library only the properties it is given with are known; its built-in
  properties, and the members of values that are not functions, are not modelled.
\<close>

definition is_native :: "pkey \<Rightarrow> bool" where
  "is_native k \<longleftrightarrow>
     k = SKey ''length'' \<or> k = SKey ''name'' \<or> k = SKey ''prototype'' \<or> inherited k \<noteq> None"

fun member_get :: "val \<Rightarrow> pkey \<Rightarrow> heap \<Rightarrow> failure + val \<times> heap" where
  "member_get (Proxy a d) k h = handler_get d a k h"
| "member_get (Fn a) k h =
     (case target_read h a k of Inl f \<Rightarrow> Inl f | Inr v \<Rightarrow> Inr (v, h))"
| "member_get (Closure n ps) (SKey s) h =
     (case map_of ps s of
        Some v \<Rightarrow> Inr (v, h)
      | None \<Rightarrow> if is_native (SKey s) then Inl Unmodelled else Inr (JUndefined, h))"
| "member_get v k h = Inl Unmodelled"

fun member_set :: "val \<Rightarrow> pkey \<Rightarrow> val \<Rightarrow> heap \<Rightarrow> failure + heap" where
  "member_set (Proxy a d) k v h = handler_set a k v h"
| "member_set (Fn a) k v h = target_write a k v h"
| "member_set w k v h = Inl Unmodelled"

text \<open>
  \<^verbatim>\<open>'mock' in value\<close> for a function value (a proxy has no \<^verbatim>\<open>has\<close> trap, and no function
  inherits a property of that name).
\<close>

fun has_mock :: "heap \<Rightarrow> val \<Rightarrow> bool" where
  "has_mock h (Proxy a d) = (a < length h \<and> map_of (props (h ! a)) (SKey ''mock'') \<noteq> None)"
| "has_mock h (Fn a) = (a < length h \<and> map_of (props (h ! a)) (SKey ''mock'') \<noteq> None)"
| "has_mock h (Closure n ps) = (map_of ps ''mock'' \<noteq> None)"
| "has_mock h v = False"

text \<open>
  \<^verbatim>\<open>value.mock\<close> for a function value: the read goes through \<open>member_get\<close>; it neither
  raises nor changes the heap, so only its value is kept.
\<close>

definition mock_of :: "heap \<Rightarrow> val \<Rightarrow> val" where
  "mock_of h v =
     (case member_get v (SKey ''mock'') h of Inr (m, h1) \<Rightarrow> m | Inl f \<Rightarrow> JUndefined)"

section \<open>isMock and getCallInfo\<close>

text \<open>
  \<^verbatim>\<open>m.calls\<close> and \<^verbatim>\<open>m.results\<close> for a value \<open>m\<close> with \<^verbatim>\<open>typeof m === 'object'\<close>: \<open>None\<close>
  when the read raises a TypeError.
\<close>

fun field :: "val \<Rightarrow> string \<Rightarrow> val option" where
  "field JNull s = None"
| "field JUndefined s = None"
| "field (JObj fs) s = Some (case map_of fs s of None \<Rightarrow> JUndefined | Some v \<Rightarrow> v)"
| "field v s = Some JUndefined"

text \<open>\<open>Inl e\<close>: the call raises \<open>e\<close>.\<close>

definition isMock :: "heap \<Rightarrow> val \<Rightarrow> val + bool" where
  "isMock h v =
     (if typeof v = TFunction \<and> has_mock h v \<and> typeof (mock_of h v) = TObject
      then (let m = mock_of h v in
            case field m ''calls'' of
              None \<Rightarrow> Inl RuntimeTypeError
            | Some c \<Rightarrow>
                if isArray c
                then (case field m ''results'' of
                        None \<Rightarrow> Inl RuntimeTypeError
                      | Some r \<Rightarrow> Inr (isArray r))
                else Inr False)
      else Inr False)"

record call_info =
  callCount :: nat
  calls :: "val list"
  results :: "val list"
  lastCall :: val
  lastResult :: val

fun elems :: "val \<Rightarrow> val list" where
  "elems (JArr xs) = xs"
| "elems v = []"

text \<open>\<^verbatim>\<open>xs[xs.length - 1] || d\<close>.\<close>

definition last_or :: "val list \<Rightarrow> val \<Rightarrow> val" where
  "last_or xs d = (if xs \<noteq> [] \<and> truthy (last xs) then last xs else d)"

definition mock_log :: "heap \<Rightarrow> val \<Rightarrow> string \<Rightarrow> val list" where
  "mock_log h v s = (case field (mock_of h v) s of None \<Rightarrow> [] | Some xs \<Rightarrow> elems xs)"

definition getCallInfo :: "heap \<Rightarrow> val \<Rightarrow> val + call_info" where
  "getCallInfo h mockFn =
     (case isMock h mockFn of
        Inl e \<Rightarrow> Inl e
      | Inr False \<Rightarrow> Inl (JTypeError ''Argument must be a mock function'')
      | Inr True \<Rightarrow>
          Inr \<lparr>callCount = length (mock_log h mockFn ''calls''),
               calls = mock_log h mockFn ''calls'',
               results = mock_log h mockFn ''results'',
               lastCall = last_or (mock_log h mockFn ''calls'') (JArr []),
               lastResult = last_or (mock_log h mockFn ''results'')
                              (JObj [(''type'', JStr ''return''), (''value'', JUndefined)])\<rparr>)"

section \<open>createMockWithDefaults\<close>




section \<open>Notions used by the properties\<close>

text \<open>The two logs of the mock at an address, read as \<^verbatim>\<open>getCallInfo\<close> reads them.\<close>

definition call_log :: "heap \<Rightarrow> addr \<Rightarrow> val list" where
  "call_log h a = mock_log h (Fn a) ''calls''"

definition result_log :: "heap \<Rightarrow> addr \<Rightarrow> val list" where
  "result_log h a = mock_log h (Fn a) ''results''"

text \<open>
  The logs when the bookkeeping object has the shape \<^verbatim>\<open>{calls: [...], results: [...]}\<close>
  that \<^verbatim>\<open>isMock\<close> accepts.
\<close>

definition logs_at :: "heap \<Rightarrow> addr \<Rightarrow> (val list \<times> val list) option" where
  "logs_at h a =
     (if a < length h then
        (case map_of (props (h ! a)) (SKey ''mock'') of
           Some (JObj fs) \<Rightarrow>
             (case (map_of fs ''calls'', map_of fs ''results'') of
                (Some (JArr cs), Some (JArr rs)) \<Rightarrow> Some (cs, rs)
              | _ \<Rightarrow> None)
         | _ \<Rightarrow> None)
      else None)"

text \<open>Invoking the mock at an address once for every argument list, in order.\<close>

fun invoke_all :: "env \<Rightarrow> addr \<Rightarrow> val list list \<Rightarrow> heap \<Rightarrow> outcome list \<times> heap" where
  "invoke_all env a [] h = ([], h)"
| "invoke_all env a (args # rest) h =
     (let (out, h1) = invoke env a args h;
          (outs, h2) = invoke_all env a rest h1
      in (out # outs, h2))"

text \<open>
  No function of the environment touches the cell at \<open>a\<close>: the behaviours neither invoke
  nor reconfigure that mock, nor write to its properties.
\<close>

definition frames :: "env \<Rightarrow> addr \<Rightarrow> bool" where
  "frames env a \<longleftrightarrow>
     (\<forall>f args h. a < length h \<longrightarrow>
        a < length (snd (env f args h)) \<and> snd (env f args h) ! a = h ! a)"

text \<open>The behaviour that lines 36--37 of \<^verbatim>\<open>fn\<close> choose in a heap.\<close>

definition chosen :: "heap \<Rightarrow> addr \<Rightarrow> impl option" where
  "chosen h a =
     (case onceQueue (h ! a) of
        [] \<Rightarrow> impl (h ! a)
      | f # q \<Rightarrow> if nullish (Some f) then impl (h ! a) else Some f)"

text \<open>
  What the chosen behaviour of an invocation returns or throws, and the heap it leaves:
  \<^verbatim>\<open>fn\<close> up to and including line 39. \<open>None\<close> when \<^verbatim>\<open>fn\<close> raises before it runs a
  behaviour.
\<close>

definition behaviour_run :: "env \<Rightarrow> addr \<Rightarrow> val list \<Rightarrow> heap \<Rightarrow> (outcome \<times> heap) option" where
  "behaviour_run env a args h =
     (case enter a args h of
        None \<Rightarrow> None
      | Some (toCall, h1) \<Rightarrow> Some (run_impl env toCall args h1))"

text \<open>
  A chain of \<open>n\<close> calls \<^verbatim>\<open>v()()...()\<close>, each on the result of the one before; it stops
  at the first call that raises.
\<close>

fun call_chain :: "env \<Rightarrow> nat \<Rightarrow> val \<Rightarrow> heap \<Rightarrow> outcome \<times> heap" where
  "call_chain env 0 v h = (Inr v, h)"
| "call_chain env (Suc n) v h =
     (case call_value env v [] h of
        (Inl e, h1) \<Rightarrow> (Inl e, h1)
      | (Inr v1, h1) \<Rightarrow> call_chain env n v1 h1)"

text \<open>The heap in which the chosen behaviour of an invocation starts.\<close>

definition start_heap :: "addr \<Rightarrow> val list \<Rightarrow> heap \<Rightarrow> heap" where
  "start_heap a args h = (case enter a args h of None \<Rightarrow> h | Some (toCall, h1) \<Rightarrow> h1)"

text \<open>Environments for the concrete runs below.\<close>

definition env_const :: env where
  "env_const f args h = (case f of Closure n ps \<Rightarrow> (Inr (JNum (int n)), h) | _ \<Rightarrow> (Inl RuntimeTypeError, h))"

definition env_throw :: env where
  "env_throw f args h = (Inl (JStr ''boom''), h)"

text \<open>\<^verbatim>\<open>() => m.mock.calls\<close> for the mock \<open>m\<close> at address 0.\<close>

definition env_observe :: env where
  "env_observe f args h = (Inr (JArr (call_log h 0)), h)"


text \<open>The outcome \<^verbatim>\<open>getCallInfo\<close> reports when nothing was recorded.\<close>

definition sentinel :: val where
  "sentinel = JObj [(''type'', JStr ''return''), (''value'', JUndefined)]"

text \<open>The heap after \<^verbatim>\<open>createMock()\<close> in an empty heap: the root proxy is \<open>Proxy 0 0\<close>.\<close>

definition root_heap :: heap where
  "root_heap = snd (createMock 0 [])"

text \<open>
  \<^verbatim>\<open>() => { m(); return [m.mock.calls.length, m.mock.results.length]; }\<close> for the mock
  \<open>m\<close> at address 0 (the inner call runs a behaviour of the library).
\<close>

definition env_reenter :: env where
  "env_reenter f args h =
     (let (out, h1) = invoke env_const 0 [] h
      in (Inr (JArr [JNum (int (length (call_log h1 0))), JNum (int (length (result_log h1 0)))]), h1))"

text \<open>
  In \<open>env_nested\<close> the function \<open>Closure 1\<close> is \<^verbatim>\<open>() => m()\<close> for the mock \<open>m\<close> at address
  0, and every other function returns its number. \<open>env_break\<close> is
  \<^verbatim>\<open>() => { m.mock = null; throw 'boom' }\<close> and \<open>env_spoil\<close> is
  \<^verbatim>\<open>() => { m.mock = null; return 1 }\<close>.
\<close>

definition env_nested :: env where
  "env_nested f args h =
     (case f of
        Closure n ps \<Rightarrow> if n = 1 then invoke env_const 0 [] h else (Inr (JNum (int n)), h)
      | _ \<Rightarrow> (Inl RuntimeTypeError, h))"

definition env_break :: env where
  "env_break f args h = (Inl (JStr ''boom''), target_set 0 (SKey ''mock'') JNull h)"

definition env_spoil :: env where
  "env_spoil f args h = (Inr (JNum 1), target_set 0 (SKey ''mock'') JNull h)"

text \<open>
  The root mock after \<^verbatim>\<open>mockImplementationOnce(f1)\<close>, \<^verbatim>\<open>mockImplementationOnce(f2)\<close> and
  \<^verbatim>\<open>mockImplementation(f3)\<close> for the functions \<open>Closure 1\<close>, \<open>Closure 2\<close> and \<open>Closure 3\<close>
  from outside, and after \<^verbatim>\<open>mockImplementationOnce(f1)\<close> alone.
\<close>

definition fifo_heap :: heap where
  "fifo_heap =
     snd (call_method MockImplementation 0 [Closure 3 []]
       (snd (call_method MockImplementationOnce 0 [Closure 2 []]
         (snd (call_method MockImplementationOnce 0 [Closure 1 []] root_heap)))))"

definition once_heap :: heap where
  "once_heap = snd (call_method MockImplementationOnce 0 [Closure 1 []] root_heap)"

text \<open>The heap after reading the member \<^verbatim>\<open>getUser\<close> of the root: the child is \<open>Proxy 1 1\<close>.\<close>

definition getUser_heap :: heap where
  "getUser_heap = target_set 0 (SKey ''getUser'') (Proxy 1 1) (snd (createMock 1 root_heap))"

section \<open>Properties\<close>

lemmas eval_defs =
  createMock_def MAX_DEPTH_def createBaseMock_def root_heap_def
  target_get_def target_set_def get_prop_def set_prop_def
  target_read_def target_write_def own_native_def inherited_def inherited_functions_def
  handler_get_def handler_set_def handler_ownKeys_def passthrough_def
  isMock_def getCallInfo_def mock_log_def last_or_def sentinel_def
  invoke_def enter_def leave_def push_log_def result_entry_def
  mockImplementation_def mockImplementationOnce_def
  call_log_def result_log_def mock_of_def is_native_def getUser_heap_def

subsection \<open>The depth guard\<close>

lemma invoke_fresh:
  assumes c: "h ! a = createBaseMock (Some (Nested d)) a" and a: "a < length h"
  shows "\<exists>h3. invoke env a args h = (Inr (fst (createMock (d + 1) h)), h3) \<and>
           (d < 10 \<longrightarrow> length h3 = Suc (length h) \<and>
              h3 ! length h = createBaseMock (Some (Nested (d + 1))) (length h))"
  using assms
  by (auto simp: invoke_def enter_def leave_def push_log_def result_entry_def target_get_def
      target_set_def get_prop_def set_prop_def createMock_def MAX_DEPTH_def createBaseMock_def
      nth_append Let_def)

lemma call_chain_depth:
  assumes "h ! a = createBaseMock (Some (Nested d)) a" and "a < length h" and "d \<le> 10"
  shows "(d + int n = 11 \<longrightarrow> fst (call_chain env n (Proxy a d) h) = Inr JUndefined) \<and>
         (d + int n \<le> 10 \<longrightarrow> (\<exists>b. fst (call_chain env n (Proxy a d) h) = Inr (Proxy b (d + int n))))"
  using assms
proof (induction n arbitrary: a d h)
  case 0
  then show ?case by simp
next
  case (Suc n)
  from invoke_fresh [OF Suc.prems(1,2), of env "[]"] obtain h3 where
    i: "invoke env a [] h = (Inr (fst (createMock (d + 1) h)), h3)"
    and f: "d < 10 \<longrightarrow> length h3 = Suc (length h) \<and>
              h3 ! length h = createBaseMock (Some (Nested (d + 1))) (length h)"
    by blast
  show ?case
  proof (cases "d < 10")
    case True
    then have v: "fst (createMock (d + 1) h) = Proxy (length h) (d + 1)"
      by (simp add: createMock_def MAX_DEPTH_def)
    have "h3 ! length h = createBaseMock (Some (Nested (d + 1))) (length h)"
      and "length h < length h3" and "d + 1 \<le> 10"
      using f True by simp_all
    from Suc.IH [OF this] show ?thesis
      using i v by (auto simp: algebra_simps)
  next
    case False
    then have d: "d = 10" using Suc.prems(3) by simp
    then have "fst (createMock (d + 1) h) = JUndefined"
      by (simp add: createMock_def MAX_DEPTH_def)
    then show ?thesis using i d by (cases n) simp_all
  qed
qed

lemma read_undefined_write:
  assumes "target_read h a (SKey s) = Inr JUndefined"
  shows "\<exists>h1. target_write a (SKey s) JUndefined h = Inr h1"
proof (cases "a < length h")
  case False
  then show ?thesis by (simp add: target_write_def)
next
  case True
  have n: "s \<noteq> ''length''" "s \<noteq> ''name''"
    using assms True by (auto simp: target_read_def own_native_def)
  show ?thesis
  proof (cases "s = ''prototype'' \<or> map_of (props (h ! a)) (SKey s) \<noteq> None")
    case True
    then show ?thesis using \<open>a < length h\<close> n by (auto simp: target_write_def)
  next
    case False
    then have o: "own_native (h ! a) (SKey s) = None" "map_of (props (h ! a)) (SKey s) = None"
      using n by (simp_all add: own_native_def)
    show ?thesis
    proof (cases "inherited (SKey s)")
      case None
      then show ?thesis using \<open>a < length h\<close> n False
        by (simp add: target_write_def)
    next
      case (Some k)
      then have False using assms \<open>a < length h\<close> o
        by (cases k) (simp_all add: target_read_def)
      then show ?thesis ..
    qed
  qed
qed

text \<open>
  C6. For every depth greater than \<^verbatim>\<open>MAX_DEPTH\<close>, which is 10, \<^verbatim>\<open>createMock\<close> returns
  undefined and creates nothing; it raises nothing and does not recurse (it is a total
  function whose result has no error case). Consequently reading a member of a mock of
  depth 10 or more that the target does not have yields undefined, and a chain of calls
  that starts at a mock of depth \<open>d\<close> yields mocks up to depth 10 and undefined at depth
  11, without raising.
\<close>

theorem createMock_depth_guard:
  "(10 < depth \<longrightarrow> createMock depth h = (JUndefined, h)) \<and>
   (10 < depth \<longrightarrow> s \<notin> set passthrough \<longrightarrow> target_read h a (SKey s) = Inr JUndefined \<longrightarrow>
      (\<exists>h1. target_write a (SKey s) JUndefined h = Inr h1 \<and>
            handler_get (depth - 1) a (SKey s) h = Inr (JUndefined, h1))) \<and>
   (d \<le> 10 \<longrightarrow> d + int n = 11 \<longrightarrow>
      fst (call_chain env n (fst (createMock d h)) (snd (createMock d h))) = Inr JUndefined) \<and>
   (d \<le> 10 \<longrightarrow> d + int n \<le> 10 \<longrightarrow>
      (\<exists>b. fst (call_chain env n (fst (createMock d h)) (snd (createMock d h)))
             = Inr (Proxy b (d + int n))))"
proof (intro conjI impI)
  show "createMock depth h = (JUndefined, h)" if "10 < depth"
    using that by (simp add: createMock_def MAX_DEPTH_def)
  show "\<exists>h1. target_write a (SKey s) JUndefined h = Inr h1 \<and>
            handler_get (depth - 1) a (SKey s) h = Inr (JUndefined, h1)"
    if d: "10 < depth" and s: "s \<notin> set passthrough"
      and r: "target_read h a (SKey s) = Inr JUndefined"
  proof -
    from read_undefined_write [OF r] obtain h1 where
      w: "target_write a (SKey s) JUndefined h = Inr h1" by blast
    have "handler_get (depth - 1) a (SKey s) h = Inr (JUndefined, h1)"
      using d s r w by (simp add: handler_get_def createMock_def MAX_DEPTH_def image_iff)
    with w show ?thesis by blast
  qed
  have c: "fst (createMock d h) = Proxy (length h) d"
    "snd (createMock d h) ! length h = createBaseMock (Some (Nested d)) (length h)"
    "length h < length (snd (createMock d h))" if "d \<le> 10"
    using that by (simp_all add: createMock_def MAX_DEPTH_def)
  show "fst (call_chain env n (fst (createMock d h)) (snd (createMock d h))) = Inr JUndefined"
    if "d \<le> 10" "d + int n = 11"
    using call_chain_depth [OF c(2,3) that(1), of n env] c(1) that by simp
  show "\<exists>b. fst (call_chain env n (fst (createMock d h)) (snd (createMock d h)))
             = Inr (Proxy b (d + int n))"
    if "d \<le> 10" "d + int n \<le> 10"
    using call_chain_depth [OF c(2,3) that(1), of n env] c(1) that by simp
qed

theorem createMock_depth_guard_witness:
  "(10::int) < 11 \<and> createMock 11 [] = (JUndefined, []) \<and>
   ''user'' \<notin> set passthrough \<and>
   target_read (snd (createMock 10 [])) 0 (SKey ''user'') = Inr JUndefined \<and>
   handler_get 10 0 (SKey ''user'') (snd (createMock 10 [])) =
     Inr (JUndefined, target_set 0 (SKey ''user'') JUndefined (snd (createMock 10 []))) \<and>
   (0::int) \<le> 10 \<and> 0 + int 11 = 11 \<and> 0 + int 10 \<le> 10 \<and>
   fst (call_chain env_const 11 (Proxy 0 0) root_heap) = Inr JUndefined \<and>
   fst (call_chain env_const 1 (Proxy 0 0) root_heap) = Inr (Proxy 1 1)"
  using createMock_depth_guard
          [where depth = 11 and h = "[]" and s = "''user''" and a = 0 and d = 0 and n = 11
             and env = env_const]
        createMock_depth_guard
          [where depth = 11 and h = "snd (createMock 10 [])" and s = "''user''" and a = 0 and d = 0
             and n = 1 and env = env_const]
  by (simp add: eval_defs)

subsection \<open>isMock\<close>

lemma target_read_mock: "target_read h a (SKey ''mock'') = Inr (target_get h a (SKey ''mock''))"
  by (simp add: target_read_def target_get_def get_prop_def own_native_def
      inherited_def inherited_functions_def split: option.splits)

lemma mock_of_Fn [simp]: "mock_of h (Fn a) = target_get h a (SKey ''mock'')"
  by (simp add: mock_of_def target_read_mock)

lemma mock_of_Proxy [simp]: "mock_of h (Proxy a d) = target_get h a (SKey ''mock'')"
  by (simp add: mock_of_def handler_get_def target_read_mock passthrough_def)

lemma mock_of_Closure [simp]:
  "mock_of h (Closure n ps) = (case map_of ps ''mock'' of None \<Rightarrow> JUndefined | Some v \<Rightarrow> v)"
  by (simp add: mock_of_def is_native_def inherited_def inherited_functions_def
      split: option.splits)

lemma member_get_mock:
  "typeof v = TFunction \<Longrightarrow> has_mock h v \<Longrightarrow> member_get v (SKey ''mock'') h = Inr (mock_of h v, h)"
  by (cases v) (auto simp: handler_get_def target_read_mock passthrough_def)

lemma isMock_Fn_logs: "isMock h (Fn a) = Inr True \<longleftrightarrow> logs_at h a \<noteq> None"
  by (auto simp: isMock_def logs_at_def target_get_def get_prop_def
      split: option.splits val.splits if_splits)

lemma logs_at_logs:
  "logs_at h a = Some (cs, rs) \<Longrightarrow> call_log h a = cs \<and> result_log h a = rs"
  by (auto simp: logs_at_def call_log_def result_log_def mock_log_def target_get_def get_prop_def
      split: option.splits val.splits if_splits)

text \<open>
  C7. \<^verbatim>\<open>isMock\<close> is meant never to fail, but on a function whose \<^verbatim>\<open>mock\<close> property is
  null it raises: \<^verbatim>\<open>typeof null\<close> is \<^verbatim>\<open>'object'\<close>, and reading \<^verbatim>\<open>null.calls\<close> is a
  TypeError. This holds for a function from outside the library and for a mock of the
  library whose \<^verbatim>\<open>mock\<close> member was overwritten with null.
\<close>

theorem isMock_raises_on_null:
  "isMock [] (Closure 0 [(''mock'', JNull)]) = Inl RuntimeTypeError \<and>
   member_set (fst (createMock 0 [])) (SKey ''mock'') JNull (snd (createMock 0 [])) =
     Inr (target_set 0 (SKey ''mock'') JNull (snd (createMock 0 []))) \<and>
   isMock (target_set 0 (SKey ''mock'') JNull (snd (createMock 0 [])))
          (fst (createMock 0 [])) = Inl RuntimeTypeError"
  by (simp add: isMock_def createMock_def MAX_DEPTH_def createBaseMock_def handler_set_def
      target_write_def target_set_def target_get_def set_prop_def get_prop_def)

lemma isArray_iff: "isArray v \<longleftrightarrow> (\<exists>xs. v = JArr xs)"
  by (cases v) auto

lemma isMock_shape:
  "isMock h v = Inr True \<Longrightarrow>
     \<exists>fs cs rs. member_get v (SKey ''mock'') h = Inr (JObj fs, h) \<and>
        map_of fs ''calls'' = Some (JArr cs) \<and> map_of fs ''results'' = Some (JArr rs)"
proof -
  assume m: "isMock h v = Inr True"
  then have t: "typeof v = TFunction" "has_mock h v"
    by (auto simp: isMock_def split: if_splits)
  from m have "\<exists>fs cs rs. mock_of h v = JObj fs \<and>
        map_of fs ''calls'' = Some (JArr cs) \<and> map_of fs ''results'' = Some (JArr rs)"
    unfolding isMock_def Let_def
    by (cases "mock_of h v") (auto simp: isArray_iff split: if_splits option.splits)
  then show ?thesis using member_get_mock [OF t] by auto
qed

subsection \<open>getCallInfo\<close>

text \<open>
  C8. \<^verbatim>\<open>getCallInfo\<close> fails exactly when \<^verbatim>\<open>isMock\<close> does not return true for its
  argument, with the TypeError of the library when \<^verbatim>\<open>isMock\<close> returns false. Otherwise
  the bookkeeping object holds a call log \<open>cs\<close> and an outcome log \<open>rs\<close>, and, their
  entries being argument tuples and outcome records (no falsy value), the result is the
  count \<open>length cs\<close>, both logs, the last call or the empty tuple, and the last outcome
  or the returned-undefined sentinel.
\<close>

theorem getCallInfo_snapshot:
  "((\<exists>e. getCallInfo h v = Inl e) \<longleftrightarrow> isMock h v \<noteq> Inr True) \<and>
   (isMock h v = Inr False \<longrightarrow>
      getCallInfo h v = Inl (JTypeError ''Argument must be a mock function'')) \<and>
   (isMock h v = Inr True \<longrightarrow>
      (\<exists>fs cs rs. member_get v (SKey ''mock'') h = Inr (JObj fs, h) \<and>
         map_of fs ''calls'' = Some (JArr cs) \<and> map_of fs ''results'' = Some (JArr rs) \<and>
         ((\<forall>c\<in>set cs. truthy c) \<and> (\<forall>r\<in>set rs. truthy r) \<longrightarrow>
            getCallInfo h v =
              Inr \<lparr>callCount = length cs, calls = cs, results = rs,
                   lastCall = (if cs = [] then JArr [] else last cs),
                   lastResult = (if rs = [] then sentinel else last rs)\<rparr>)))"
proof (intro conjI impI)
  show "(\<exists>e. getCallInfo h v = Inl e) \<longleftrightarrow> isMock h v \<noteq> Inr True"
    by (cases "isMock h v") (auto simp: getCallInfo_def split: bool.splits)
  show "getCallInfo h v = Inl (JTypeError ''Argument must be a mock function'')"
    if "isMock h v = Inr False"
    using that by (simp add: getCallInfo_def)
  show "\<exists>fs cs rs. member_get v (SKey ''mock'') h = Inr (JObj fs, h) \<and>
         map_of fs ''calls'' = Some (JArr cs) \<and> map_of fs ''results'' = Some (JArr rs) \<and>
         ((\<forall>c\<in>set cs. truthy c) \<and> (\<forall>r\<in>set rs. truthy r) \<longrightarrow>
            getCallInfo h v =
              Inr \<lparr>callCount = length cs, calls = cs, results = rs,
                   lastCall = (if cs = [] then JArr [] else last cs),
                   lastResult = (if rs = [] then sentinel else last rs)\<rparr>)"
    if m: "isMock h v = Inr True"
  proof -
    from isMock_shape [OF m] obtain fs cs rs where
      s: "member_get v (SKey ''mock'') h = Inr (JObj fs, h)"
         "map_of fs ''calls'' = Some (JArr cs)" "map_of fs ''results'' = Some (JArr rs)"
      by blast
    have o: "mock_of h v = JObj fs" using s(1) by (simp add: mock_of_def)
    have "getCallInfo h v =
              Inr \<lparr>callCount = length cs, calls = cs, results = rs,
                   lastCall = (if cs = [] then JArr [] else last cs),
                   lastResult = (if rs = [] then sentinel else last rs)\<rparr>"
      if "\<forall>c\<in>set cs. truthy c" "\<forall>r\<in>set rs. truthy r"
      using that m s(2,3) o by (simp add: getCallInfo_def mock_log_def last_or_def sentinel_def)
    with s show ?thesis by blast
  qed
qed

theorem getCallInfo_snapshot_witness:
  "isMock (snd (invoke env_const 0 [JStr ''1''] root_heap)) (Proxy 0 0) = Inr True \<and>
   getCallInfo (snd (invoke env_const 0 [JStr ''1''] root_heap)) (Proxy 0 0) =
     Inr \<lparr>callCount = 1, calls = [JArr [JStr ''1'']],
          results = [JObj [(''type'', JStr ''return''), (''value'', Proxy 1 1)]],
          lastCall = JArr [JStr ''1''],
          lastResult = JObj [(''type'', JStr ''return''), (''value'', Proxy 1 1)]\<rparr> \<and>
   isMock root_heap (JNum 3) = Inr False \<and>
   getCallInfo root_heap (JNum 3) = Inl (JTypeError ''Argument must be a mock function'')"
  using getCallInfo_snapshot [of "snd (invoke env_const 0 [JStr ''1''] root_heap)" "Proxy 0 0"]
        getCallInfo_snapshot [of root_heap "JNum 3"]
  by (simp add: eval_defs)

subsection \<open>createMockWithDefaults\<close>




subsection \<open>Members of a proxy\<close>






subsection \<open>Enumeration\<close>

text \<open>
  C10. Enumerating the members of a node is meant to list the members stored on it, but
  it raises a TypeError: the \<^verbatim>\<open>ownKeys\<close> trap returns \<^verbatim>\<open>Object.keys(target)\<close>, which
  lacks the key \<^verbatim>\<open>prototype\<close> of the target function, and the runtime rejects a trap
  result that lacks a key of the target that is not configurable. This holds for a node
  just created, whose trap result is the eleven names that \<^verbatim>\<open>createBaseMock\<close> assigns,
  and after a member has been written.
\<close>

theorem enumeration_raises:
  "handler_ownKeys 0 root_heap =
     [''mock'', ''mockImplementation'', ''mockImplementationOnce'', ''mockReturnValue'',
      ''mockReturnValueOnce'', ''mockResolvedValue'', ''mockResolvedValueOnce'',
      ''mockRejectedValue'', ''mockRejectedValueOnce'', ''mockClear'', ''mockReset''] \<and>
   proxy_ownKeys 0 root_heap = Inl (Thrown RuntimeTypeError) \<and>
   handler_set 0 (SKey ''age'') (JNum 7) root_heap
     = Inr (target_set 0 (SKey ''age'') (JNum 7) root_heap) \<and>
   proxy_ownKeys 0 (target_set 0 (SKey ''age'') (JNum 7) root_heap) = Inl (Thrown RuntimeTypeError)"
  by (simp add: proxy_ownKeys_def nonconfigurable_own_def eval_defs)

subsection \<open>Invocation\<close>

lemma logs_at_length: "logs_at h a = Some l \<Longrightarrow> a < length h"
  by (simp add: logs_at_def split: if_splits)

lemma logs_atD:
  "logs_at h a = Some (cs, rs) \<Longrightarrow>
     a < length h \<and> (\<exists>fs. map_of (props (h ! a)) (SKey ''mock'') = Some (JObj fs) \<and>
        map_of fs ''calls'' = Some (JArr cs) \<and> map_of fs ''results'' = Some (JArr rs))"
  by (auto simp: logs_at_def split: if_splits option.splits val.splits)

lemma logs_atI:
  "a < length h \<Longrightarrow> map_of (props (h ! a)) (SKey ''mock'') = Some (JObj fs) \<Longrightarrow>
   map_of fs ''calls'' = Some (JArr cs) \<Longrightarrow> map_of fs ''results'' = Some (JArr rs) \<Longrightarrow>
   logs_at h a = Some (cs, rs)"
  by (simp add: logs_at_def)

lemma enter_logs:
  assumes "logs_at h a = Some (cs, rs)"
  shows "\<exists>h1. enter a args h = Some (chosen h a, h1) \<and>
           logs_at h1 a = Some (cs @ [JArr args], rs) \<and>
           onceQueue (h1 ! a) = tl (onceQueue (h ! a)) \<and>
           impl (h1 ! a) = impl (h ! a) \<and> length h1 = length h"
proof -
  from logs_atD [OF assms] obtain fs where
    a: "a < length h" and m: "map_of (props (h ! a)) (SKey ''mock'') = Some (JObj fs)"
    and c: "map_of fs ''calls'' = Some (JArr cs)" and r: "map_of fs ''results'' = Some (JArr rs)"
    by blast
  define fs' where "fs' = AList.update ''calls'' (JArr (cs @ [JArr args])) fs"
  define h1 where "h1 = h[a := (h ! a)\<lparr>props := AList.update (SKey ''mock'') (JObj fs') (props (h ! a)),
                                    onceQueue := tl (onceQueue (h ! a))\<rparr>]"
  have e: "enter a args h = Some (chosen h a, h1)"
    using a m c
    by (simp add: enter_def push_log_def target_get_def get_prop_def target_set_def
        set_prop_def chosen_def h1_def fs'_def Let_def split: list.splits)
  have l: "logs_at h1 a = Some (cs @ [JArr args], rs)"
    by (rule logs_atI [where fs = fs']) (use a r in \<open>simp_all add: h1_def fs'_def update_conv'\<close>)
  show ?thesis
    using e l a by (auto simp: h1_def)
qed

lemma leave_logs:
  assumes "logs_at h a = Some (cs, rs)"
  shows "\<exists>h1. leave a out h = (out, h1) \<and>
           logs_at h1 a = Some (cs, rs @ [result_entry out]) \<and>
           onceQueue (h1 ! a) = onceQueue (h ! a) \<and>
           impl (h1 ! a) = impl (h ! a) \<and> length h1 = length h"
proof -
  from logs_atD [OF assms] obtain fs where
    a: "a < length h" and m: "map_of (props (h ! a)) (SKey ''mock'') = Some (JObj fs)"
    and c: "map_of fs ''calls'' = Some (JArr cs)" and r: "map_of fs ''results'' = Some (JArr rs)"
    by blast
  define fs' where "fs' = AList.update ''results'' (JArr (rs @ [result_entry out])) fs"
  define h1 where "h1 = h[a := (h ! a)\<lparr>props := AList.update (SKey ''mock'') (JObj fs') (props (h ! a))\<rparr>]"
  have e: "leave a out h = (out, h1)"
    using a m r
    by (simp add: leave_def push_log_def target_get_def get_prop_def target_set_def
        set_prop_def h1_def fs'_def)
  have l: "logs_at h1 a = Some (cs, rs @ [result_entry out])"
    by (rule logs_atI [where fs = fs']) (use a c in \<open>simp_all add: h1_def fs'_def update_conv'\<close>)
  show ?thesis
    using e l a by (auto simp: h1_def)
qed

lemma logs_at_cong: "a < length h \<Longrightarrow> a < length h' \<Longrightarrow> h' ! a = h ! a \<Longrightarrow> logs_at h' a = logs_at h a"
  by (simp add: logs_at_def)

lemma run_impl_frame:
  assumes "frames env a" "a < length h"
  shows "a < length (snd (run_impl env f args h)) \<and> snd (run_impl env f args h) ! a = h ! a"
proof (cases f)
  case None
  then show ?thesis using assms by simp
next
  case (Some i)
  then show ?thesis using assms
    by (cases i) (auto simp: frames_def createMock_def nth_append split: prod.splits)
qed

lemma invoke_step:
  assumes l: "logs_at h a = Some (cs, rs)" and f: "frames env a"
  shows "\<exists>out h1 h2 h3. enter a args h = Some (chosen h a, h1) \<and>
           run_impl env (chosen h a) args h1 = (out, h2) \<and>
           invoke env a args h = (out, h3) \<and>
           logs_at h3 a = Some (cs @ [JArr args], rs @ [result_entry out]) \<and>
           onceQueue (h3 ! a) = tl (onceQueue (h ! a)) \<and>
           impl (h3 ! a) = impl (h ! a)"
proof -
  from enter_logs [OF l, of args] obtain h1 where
    e: "enter a args h = Some (chosen h a, h1)"
    and l1: "logs_at h1 a = Some (cs @ [JArr args], rs)"
    and q1: "onceQueue (h1 ! a) = tl (onceQueue (h ! a))"
    and i1: "impl (h1 ! a) = impl (h ! a)" and n1: "length h1 = length h"
    by blast
  obtain out h2 where r: "run_impl env (chosen h a) args h1 = (out, h2)"
    by (cases "run_impl env (chosen h a) args h1")
  have a1: "a < length h1" using l1 by (simp add: logs_at_length)
  from run_impl_frame [OF f a1, of "chosen h a" args] r
  have a2: "a < length h2" and c2: "h2 ! a = h1 ! a" by simp_all
  have l2: "logs_at h2 a = Some (cs @ [JArr args], rs)"
    using logs_at_cong [OF a1 a2 c2] l1 by simp
  from leave_logs [OF l2, of out] obtain h3 where
    v: "leave a out h2 = (out, h3)"
    and l3: "logs_at h3 a = Some (cs @ [JArr args], rs @ [result_entry out])"
    and q3: "onceQueue (h3 ! a) = onceQueue (h2 ! a)"
    and i3: "impl (h3 ! a) = impl (h2 ! a)"
    by blast
  have "invoke env a args h = (out, h3)"
    using e r v by (simp add: invoke_def)
  then show ?thesis
    using e r l3 q3 i3 q1 i1 c2 by simp
qed

lemma invoke_all_inv:
  assumes "logs_at h a = Some (cs, rs)" and "frames env a"
  shows "\<exists>outs h1. invoke_all env a argss h = (outs, h1) \<and> length outs = length argss \<and>
           logs_at h1 a = Some (cs @ map JArr argss, rs @ map result_entry outs) \<and>
           onceQueue (h1 ! a) = drop (length argss) (onceQueue (h ! a)) \<and>
           impl (h1 ! a) = impl (h ! a)"
  using assms
proof (induction argss arbitrary: h cs rs)
  case Nil
  then show ?case by simp
next
  case (Cons args rest)
  from invoke_step [OF Cons.prems, of args] obtain out h3 where
    i: "invoke env a args h = (out, h3)"
    and l3: "logs_at h3 a = Some (cs @ [JArr args], rs @ [result_entry out])"
    and q3: "onceQueue (h3 ! a) = tl (onceQueue (h ! a))"
    and i3: "impl (h3 ! a) = impl (h ! a)"
    by blast
  from Cons.IH [OF l3 Cons.prems(2)] obtain outs h4 where
    r: "invoke_all env a rest h3 = (outs, h4)" "length outs = length rest"
       "logs_at h4 a = Some ((cs @ [JArr args]) @ map JArr rest, (rs @ [result_entry out]) @ map result_entry outs)"
       "onceQueue (h4 ! a) = drop (length rest) (onceQueue (h3 ! a))"
       "impl (h4 ! a) = impl (h3 ! a)"
    by blast
  show ?case
    using i r q3 i3 by (simp add: drop_Suc)
qed

lemma invoke_all_append:
  "invoke_all env a (xs @ ys) h =
     (let (o1, h1) = invoke_all env a xs h; (o2, h2) = invoke_all env a ys h1 in (o1 @ o2, h2))"
  by (induction xs arbitrary: h) (auto split: prod.splits)

lemma invoke_all_length: "length (fst (invoke_all env a argss h)) = length argss"
  by (induction argss arbitrary: h) (simp_all add: case_prod_beta)

lemma invoke_all_nth:
  assumes "k < length argss"
  shows "fst (invoke_all env a argss h) ! k =
           fst (invoke env a (argss ! k) (snd (invoke_all env a (take k argss) h)))"
proof -
  have "argss = take k argss @ (argss ! k) # drop (Suc k) argss"
    using assms by (simp add: id_take_nth_drop)
  then have "invoke_all env a argss h =
     invoke_all env a (take k argss @ (argss ! k) # drop (Suc k) argss) h" by simp
  also have "fst \<dots> ! k = fst (invoke env a (argss ! k) (snd (invoke_all env a (take k argss) h)))"
    using assms invoke_all_length [of env a "take k argss" h]
    by (auto simp: invoke_all_append nth_append split: prod.splits)
  finally show ?thesis .
qed

lemma frames_env_const: "frames env_const a"
  by (auto simp: frames_def env_const_def split: val.splits)

lemma frames_env_throw: "frames env_throw a"
  by (simp add: frames_def env_throw_def)

text \<open>
  C1, as the code has it. On a mock whose bookkeeping object is intact, an invocation
  chooses the front of the once-queue when there is one (and it is not null or
  undefined), else the persistent behaviour, and removes the front of the queue. A chosen
  function \<open>f\<close> of the caller is run on the arguments in the heap the invocation has
  prepared, and what it returns or throws is the result of the invocation when it leaves
  the bookkeeping object intact; a chosen \<^verbatim>\<open>() => v\<close> of \<^verbatim>\<open>mockReturnValue\<close> yields \<open>v\<close>;
  with an empty queue and no persistent behaviour the result is undefined. When the
  functions of the environment leave the mock alone, the
  invocation number \<open>k\<close> of a sequence runs the entry \<open>k\<close> of the queue while there is
  one and the persistent behaviour afterwards, and its result is what that function
  returns or throws.
\<close>

theorem once_queue_fifo:
  assumes "isMock h (Fn a) = Inr True"
  shows "(\<exists>h1. enter a args h =
              Some ((case onceQueue (h ! a) of
                       [] \<Rightarrow> impl (h ! a)
                     | f # q \<Rightarrow> if nullish (Some f) then impl (h ! a) else Some f), h1) \<and>
            onceQueue (h1 ! a) = tl (onceQueue (h ! a)) \<and> impl (h1 ! a) = impl (h ! a)) \<and>
         (truthy f \<and>
          (onceQueue (h ! a) \<noteq> [] \<and> hd (onceQueue (h ! a)) = Given f \<or>
           onceQueue (h ! a) = [] \<and> impl (h ! a) = Some (Given f)) \<longrightarrow>
            behaviour_run env a args h = Some (env f args (start_heap a args h)) \<and>
            (isMock (snd (env f args (start_heap a args h))) (Fn a) = Inr True \<longrightarrow>
               fst (invoke env a args h) = fst (env f args (start_heap a args h)))) \<and>
         (onceQueue (h ! a) \<noteq> [] \<and> hd (onceQueue (h ! a)) = ReturnValue x \<or>
          onceQueue (h ! a) = [] \<and> impl (h ! a) = Some (ReturnValue x) \<longrightarrow>
            fst (invoke env a args h) = Inr x) \<and>
         (onceQueue (h ! a) = [] \<and> impl (h ! a) = None \<longrightarrow> fst (invoke env a args h) = Inr JUndefined) \<and>
         (frames env a \<and> k < length argss \<longrightarrow>
            (truthy g \<and>
             (k < length (onceQueue (h ! a)) \<and> onceQueue (h ! a) ! k = Given g \<or>
              length (onceQueue (h ! a)) \<le> k \<and> impl (h ! a) = Some (Given g)) \<longrightarrow>
               fst (invoke_all env a argss h) ! k =
                 fst (env g (argss ! k)
                        (start_heap a (argss ! k) (snd (invoke_all env a (take k argss) h))))) \<and>
            (length (onceQueue (h ! a)) \<le> k \<and> impl (h ! a) = None \<longrightarrow>
               fst (invoke_all env a argss h) ! k = Inr JUndefined))"
proof -
  from assms obtain cs rs where l: "logs_at h a = Some (cs, rs)"
    by (auto simp: isMock_Fn_logs)
  have step: "\<exists>h1. enter a args' h' = Some (chosen h' a, h1) \<and> start_heap a args' h' = h1 \<and>
        onceQueue (h1 ! a) = tl (onceQueue (h' ! a)) \<and> impl (h1 ! a) = impl (h' ! a) \<and>
        behaviour_run env a args' h' = Some (run_impl env (chosen h' a) args' h1) \<and>
        (isMock (snd (run_impl env (chosen h' a) args' h1)) (Fn a) = Inr True \<longrightarrow>
           fst (invoke env a args' h') = fst (run_impl env (chosen h' a) args' h1))"
    if l': "logs_at h' a = Some (cs', rs')" for h' args' cs' rs'
  proof -
    from enter_logs [OF l', of args'] obtain h1 where
      e: "enter a args' h' = Some (chosen h' a, h1)"
      and q1: "onceQueue (h1 ! a) = tl (onceQueue (h' ! a))"
      and i1: "impl (h1 ! a) = impl (h' ! a)"
      by blast
    obtain out h2 where u: "run_impl env (chosen h' a) args' h1 = (out, h2)"
      by (cases "run_impl env (chosen h' a) args' h1")
    have "fst (invoke env a args' h') = out" if "isMock h2 (Fn a) = Inr True"
    proof -
      from that obtain cs2 rs2 where l2: "logs_at h2 a = Some (cs2, rs2)"
        by (auto simp: isMock_Fn_logs)
      from leave_logs [OF l2, of out] obtain h3 where "leave a out h2 = (out, h3)" by blast
      then show ?thesis using e u by (simp add: invoke_def)
    qed
    then show ?thesis
      using e q1 i1 u by (simp add: start_heap_def behaviour_run_def)
  qed
  have given: "chosen h' a = Some (Given f')"
    if "truthy f'" "onceQueue (h' ! a) \<noteq> [] \<and> hd (onceQueue (h' ! a)) = Given f' \<or>
         onceQueue (h' ! a) = [] \<and> impl (h' ! a) = Some (Given f')" for h' f'
  proof -
    have "\<not> nullish (Some (Given f'))" using that(1) by (cases f') simp_all
    then show ?thesis using that(2) by (cases "onceQueue (h' ! a)") (auto simp: chosen_def)
  qed
  have part1: "\<exists>h1. enter a args h =
              Some ((case onceQueue (h ! a) of
                       [] \<Rightarrow> impl (h ! a)
                     | f # q \<Rightarrow> if nullish (Some f) then impl (h ! a) else Some f), h1) \<and>
            onceQueue (h1 ! a) = tl (onceQueue (h ! a)) \<and> impl (h1 ! a) = impl (h ! a)"
    using step [OF l, of args] by (auto simp: chosen_def)
  have part2: "behaviour_run env a args h = Some (env f args (start_heap a args h)) \<and>
            (isMock (snd (env f args (start_heap a args h))) (Fn a) = Inr True \<longrightarrow>
               fst (invoke env a args h) = fst (env f args (start_heap a args h)))"
    if "truthy f \<and>
          (onceQueue (h ! a) \<noteq> [] \<and> hd (onceQueue (h ! a)) = Given f \<or>
           onceQueue (h ! a) = [] \<and> impl (h ! a) = Some (Given f))"
  proof -
    have c: "chosen h a = Some (Given f)" using given that by blast
    show ?thesis using step [OF l, of args] c that by auto
  qed
  have part2r: "fst (invoke env a args h) = Inr x"
    if "onceQueue (h ! a) \<noteq> [] \<and> hd (onceQueue (h ! a)) = ReturnValue x \<or>
          onceQueue (h ! a) = [] \<and> impl (h ! a) = Some (ReturnValue x)"
  proof -
    have c: "chosen h a = Some (ReturnValue x)"
      using that by (cases "onceQueue (h ! a)") (auto simp: chosen_def)
    from enter_logs [OF l, of args] obtain h1 where
      e: "enter a args h = Some (chosen h a, h1)"
      and l1: "logs_at h1 a = Some (cs @ [JArr args], rs)" by blast
    from leave_logs [OF l1, of "Inr x"] obtain h3 where
      "leave a (Inr x) h1 = (Inr x, h3)" by blast
    then show ?thesis using e c by (simp add: invoke_def)
  qed
  have part3: "fst (invoke env a args h) = Inr JUndefined"
    if "onceQueue (h ! a) = [] \<and> impl (h ! a) = None"
  proof -
    have c: "chosen h a = None" using that by (simp add: chosen_def)
    from enter_logs [OF l, of args] obtain h1 where
      e: "enter a args h = Some (chosen h a, h1)"
      and l1: "logs_at h1 a = Some (cs @ [JArr args], rs)" by blast
    from leave_logs [OF l1, of "Inr JUndefined"] obtain h3 where
      "leave a (Inr JUndefined) h1 = (Inr JUndefined, h3)" by blast
    then show ?thesis using e c by (simp add: invoke_def)
  qed
  have part4: "(truthy g \<and>
             (k < length (onceQueue (h ! a)) \<and> onceQueue (h ! a) ! k = Given g \<or>
              length (onceQueue (h ! a)) \<le> k \<and> impl (h ! a) = Some (Given g)) \<longrightarrow>
               fst (invoke_all env a argss h) ! k =
                 fst (env g (argss ! k)
                        (start_heap a (argss ! k) (snd (invoke_all env a (take k argss) h))))) \<and>
            (length (onceQueue (h ! a)) \<le> k \<and> impl (h ! a) = None \<longrightarrow>
               fst (invoke_all env a argss h) ! k = Inr JUndefined)"
    if s: "frames env a \<and> k < length argss"
  proof -
    from s have f: "frames env a" and k: "k < length argss" by simp_all
    define hk where "hk = snd (invoke_all env a (take k argss) h)"
    from invoke_all_inv [OF l f, of "take k argss"] k obtain csk rsk where
      lk: "logs_at hk a = Some (csk, rsk)"
      and qk: "onceQueue (hk ! a) = drop k (onceQueue (h ! a))"
      and ik: "impl (hk ! a) = impl (h ! a)"
      by (auto simp: hk_def min_def)
    from invoke_step [OF lk f, of "argss ! k"] obtain out h1 h2 h3 where
      ek: "enter a (argss ! k) hk = Some (chosen hk a, h1)"
      and rk: "run_impl env (chosen hk a) (argss ! k) h1 = (out, h2)"
      and vk: "invoke env a (argss ! k) hk = (out, h3)"
      by blast
    have sk: "start_heap a (argss ! k) hk = h1" using ek by (simp add: start_heap_def)
    have res: "fst (invoke_all env a argss h) ! k = fst (run_impl env (chosen hk a) (argss ! k) h1)"
      using invoke_all_nth [OF k, of env a h] vk rk by (simp add: hk_def)
    have a: "fst (invoke_all env a argss h) ! k = fst (env g (argss ! k) (start_heap a (argss ! k) hk))"
      if t: "truthy g" and c: "k < length (onceQueue (h ! a)) \<and> onceQueue (h ! a) ! k = Given g \<or>
              length (onceQueue (h ! a)) \<le> k \<and> impl (h ! a) = Some (Given g)"
    proof -
      have "onceQueue (hk ! a) \<noteq> [] \<and> hd (onceQueue (hk ! a)) = Given g \<or>
            onceQueue (hk ! a) = [] \<and> impl (hk ! a) = Some (Given g)"
        using c qk ik by (auto simp: hd_drop_conv_nth)
      from given [OF t this] show ?thesis using res sk t by simp
    qed
    have b: "fst (invoke_all env a argss h) ! k = Inr JUndefined"
      if "length (onceQueue (h ! a)) \<le> k \<and> impl (h ! a) = None"
    proof -
      have "chosen hk a = None" using that qk ik by (simp add: chosen_def)
      then show ?thesis using res by simp
    qed
    show ?thesis using a b unfolding hk_def by blast
  qed
  show ?thesis
    using part1 part2 part2r part3 part4 by blast
qed

theorem once_queue_fifo_witness:
  "isMock fifo_heap (Fn 0) = Inr True \<and>
   onceQueue (fifo_heap ! 0) = [Given (Closure 1 []), Given (Closure 2 [])] \<and>
   impl (fifo_heap ! 0) = Some (Given (Closure 3 [])) \<and>
   truthy (Closure 1 []) \<and> truthy (Closure 2 []) \<and> truthy (Closure 3 []) \<and>
   (1::nat) < length [[], [], []::val list] \<and>
   fst (env_const (Closure 1 []) [] (start_heap 0 [] fifo_heap)) = Inr (JNum 1) \<and>
   fst (invoke env_const 0 [] fifo_heap) = Inr (JNum 1) \<and>
   fst (invoke_all env_const 0 [[], [], []] fifo_heap) = [Inr (JNum 1), Inr (JNum 2), Inr (JNum 3)] \<and>
   isMock [createBaseMock None 0] (Fn 0) = Inr True \<and>
   onceQueue ([createBaseMock None 0] ! 0) = [] \<and> impl ([createBaseMock None 0] ! 0) = None \<and>
   fst (invoke env_const 0 [] [createBaseMock None 0]) = Inr JUndefined \<and>
   isMock [createBaseMock (Some (ReturnValue (JNum 9))) 0] (Fn 0) = Inr True \<and>
   impl ([createBaseMock (Some (ReturnValue (JNum 9))) 0] ! 0) = Some (ReturnValue (JNum 9)) \<and>
   fst (invoke env_const 0 [] [createBaseMock (Some (ReturnValue (JNum 9))) 0]) = Inr (JNum 9)"
  using once_queue_fifo
          [where h = fifo_heap and a = 0 and args = "[]" and env = env_const and k = 1
             and argss = "[[], [], []]" and f = "Closure 1 []" and g = "Closure 2 []"]
        once_queue_fifo
          [where h = fifo_heap and a = 0 and args = "[]" and env = env_const and k = 2
             and argss = "[[], [], []]" and f = "Closure 1 []" and g = "Closure 3 []"]
        once_queue_fifo
          [where h = "[createBaseMock None 0]" and a = 0 and args = "[]" and env = env_const
             and k = 0 and argss = "[[]]" and f = "Closure 1 []" and g = "Closure 1 []"]
        once_queue_fifo
          [where h = "[createBaseMock (Some (ReturnValue (JNum 9))) 0]" and a = 0 and args = "[]"
             and env = env_const and k = 0 and argss = "[[]]" and f = "Closure 1 []"
             and g = "Closure 1 []" and x = "JNum 9"]
        frames_env_const [of 0]
  by (simp add: fifo_heap_def env_const_def start_heap_def eval_defs)

text \<open>
  C1 as stated fails when a once-behaviour invokes the mock that runs it: with the queue
  \<^verbatim>\<open>[f1, f2]\<close>, \<^verbatim>\<open>f1 = () => m()\<close>, \<^verbatim>\<open>f2\<close> returning 2 and the persistent behaviour
  returning 3, the inner call consumes \<^verbatim>\<open>f2\<close>, and three invocations return 2, 3 and 3:
  the second invocation runs the persistent behaviour, not \<^verbatim>\<open>f2\<close>.
\<close>

theorem reentrant_first_behaviour:
  "fst (invoke_all env_nested 0 [[], [], []] fifo_heap) = [Inr (JNum 2), Inr (JNum 3), Inr (JNum 3)]"
  by (simp add: fifo_heap_def env_nested_def env_const_def eval_defs)

text \<open>
  C2, as the code has it. On a mock whose bookkeeping object is intact and whose
  behaviours leave the mock alone (they neither invoke it nor reconfigure it), every
  invocation adds one entry to each log: after \<open>n\<close> invocations both logs have grown by
  \<open>n\<close>, and \<^verbatim>\<open>getCallInfo\<close> reports that count.
\<close>

theorem log_lengths:
  assumes "isMock h (Fn a) = Inr True" and "frames env a" and "n \<le> length argss"
  shows "length (call_log (snd (invoke_all env a (take n argss) h)) a) = length (call_log h a) + n \<and>
         length (result_log (snd (invoke_all env a (take n argss) h)) a) = length (result_log h a) + n \<and>
         (\<exists>info. getCallInfo (snd (invoke_all env a (take n argss) h)) (Fn a) = Inr info \<and>
            callCount info = length (call_log h a) + n \<and>
            length (calls info) = length (call_log h a) + n \<and>
            length (results info) = length (result_log h a) + n)"
proof -
  from assms(1) obtain cs rs where l: "logs_at h a = Some (cs, rs)"
    by (auto simp: isMock_Fn_logs)
  from invoke_all_inv [OF l assms(2), of "take n argss"] obtain outs h1 where
    r: "invoke_all env a (take n argss) h = (outs, h1)" "length outs = length (take n argss)"
       "logs_at h1 a = Some (cs @ map JArr (take n argss), rs @ map result_entry outs)"
    by blast
  have m: "isMock h1 (Fn a) = Inr True"
    using r(3) by (simp add: isMock_Fn_logs)
  have c: "call_log h1 a = cs @ map JArr (take n argss)"
    and o: "result_log h1 a = rs @ map result_entry outs"
    using logs_at_logs [OF r(3)] by simp_all
  have g: "getCallInfo h1 (Fn a) =
      Inr \<lparr>callCount = length (call_log h1 a), calls = call_log h1 a, results = result_log h1 a,
           lastCall = last_or (call_log h1 a) (JArr []),
           lastResult = last_or (result_log h1 a)
                          (JObj [(''type'', JStr ''return''), (''value'', JUndefined)])\<rparr>"
    using m by (simp add: getCallInfo_def call_log_def result_log_def)
  show ?thesis
    using r(1,2) c o g logs_at_logs [OF l] assms(3) by simp
qed

theorem log_lengths_witness:
  "isMock once_heap (Fn 0) = Inr True \<and> (3::nat) \<le> length [[JNum 1], [], [JStr ''x'']] \<and>
   call_log once_heap 0 = [] \<and> result_log once_heap 0 = [] \<and>
   fst (invoke_all env_throw 0 [[JNum 1], [], [JStr ''x'']] once_heap)
     = [Inl (JStr ''boom''), Inr (Proxy 1 1), Inr (Proxy 2 1)] \<and>
   length (call_log (snd (invoke_all env_throw 0 (take 3 [[JNum 1], [], [JStr ''x'']]) once_heap)) 0) = 3 \<and>
   length (result_log (snd (invoke_all env_throw 0 (take 3 [[JNum 1], [], [JStr ''x'']]) once_heap)) 0) = 3"
  using log_lengths [of once_heap 0 env_throw 3 "[[JNum 1], [], [JStr ''x'']]"]
        frames_env_throw [of 0]
  by (simp add: once_heap_def env_throw_def eval_defs)

text \<open>
  C2 as stated fails when a behaviour invokes the mock that runs it: at the moment the
  inner invocation has completed, the call log has two entries and the outcome log one.
\<close>

theorem reentrant_log_lengths:
  "fst (invoke env_reenter 0 [] once_heap) = Inr (JArr [JNum 2, JNum 1])"
  by (simp add: once_heap_def env_reenter_def env_const_def eval_defs)

text \<open>
  C3, as the code has it. On a mock whose bookkeeping object is intact, the chosen
  behaviour starts in a heap whose call log already ends with the arguments of the
  current invocation, while the outcome log is as before the invocation. When the
  behaviour has finished and has left the bookkeeping object intact, the outcome is
  pushed once on the outcome log as the behaviour left it, the call log is not pushed
  again, and that outcome is what the caller gets.
\<close>

theorem invoke_log_order:
  assumes "isMock h (Fn a) = Inr True"
  shows "\<exists>toCall h1. enter a args h = Some (toCall, h1) \<and>
           call_log h1 a = call_log h a @ [JArr args] \<and>
           result_log h1 a = result_log h a \<and>
           (isMock (snd (run_impl env toCall args h1)) (Fn a) = Inr True \<longrightarrow>
              fst (invoke env a args h) = fst (run_impl env toCall args h1) \<and>
              call_log (snd (invoke env a args h)) a = call_log (snd (run_impl env toCall args h1)) a \<and>
              result_log (snd (invoke env a args h)) a =
                result_log (snd (run_impl env toCall args h1)) a
                  @ [result_entry (fst (run_impl env toCall args h1))])"
proof -
  from assms obtain cs rs where l: "logs_at h a = Some (cs, rs)"
    by (auto simp: isMock_Fn_logs)
  from enter_logs [OF l, of args] obtain h1 where
    e: "enter a args h = Some (chosen h a, h1)"
    and l1: "logs_at h1 a = Some (cs @ [JArr args], rs)"
    by blast
  obtain out h2 where u: "run_impl env (chosen h a) args h1 = (out, h2)"
    by (cases "run_impl env (chosen h a) args h1")
  have "fst (invoke env a args h) = out \<and> call_log (snd (invoke env a args h)) a = call_log h2 a \<and>
        result_log (snd (invoke env a args h)) a = result_log h2 a @ [result_entry out]"
    if "isMock h2 (Fn a) = Inr True"
  proof -
    from that obtain cs2 rs2 where l2: "logs_at h2 a = Some (cs2, rs2)"
      by (auto simp: isMock_Fn_logs)
    from leave_logs [OF l2, of out] obtain h3 where
      v: "leave a out h2 = (out, h3)" and l3: "logs_at h3 a = Some (cs2, rs2 @ [result_entry out])"
      by blast
    have "invoke env a args h = (out, h3)"
      using e u v by (simp add: invoke_def)
    then show ?thesis
      using logs_at_logs [OF l2] logs_at_logs [OF l3] by simp
  qed
  then show ?thesis
    using e u logs_at_logs [OF l] logs_at_logs [OF l1] by auto
qed

theorem invoke_log_order_witness:
  "isMock once_heap (Fn 0) = Inr True \<and>
   call_log (start_heap 0 [JNum 1] once_heap) 0 = [JArr [JNum 1]] \<and>
   result_log (start_heap 0 [JNum 1] once_heap) 0 = [] \<and>
   isMock (snd (env_throw (Closure 1 []) [JNum 1] (start_heap 0 [JNum 1] once_heap))) (Fn 0) = Inr True \<and>
   fst (invoke env_throw 0 [JNum 1] once_heap) = Inl (JStr ''boom'') \<and>
   call_log (snd (invoke env_throw 0 [JNum 1] once_heap)) 0 = [JArr [JNum 1]] \<and>
   result_log (snd (invoke env_throw 0 [JNum 1] once_heap)) 0
     = [JObj [(''type'', JStr ''throw''), (''value'', JStr ''boom'')]]"
  using invoke_log_order [of once_heap 0 "[JNum 1]" env_throw]
  by (simp add: once_heap_def env_throw_def start_heap_def eval_defs)

text \<open>
  C3 as stated fails twice. A behaviour that returns the call log it sees, run by the
  first invocation of a mock, returns a log that already holds the entry of that
  invocation. And after a behaviour that overwrites the bookkeeping object with null and
  returns, no outcome is logged and the caller gets a TypeError.
\<close>

theorem behaviour_sees_pending_call:
  "call_log once_heap 0 = [] \<and>
   fst (invoke env_observe 0 [JStr ''x''] once_heap) = Inr (JArr [JArr [JStr ''x'']]) \<and>
   fst (invoke env_spoil 0 [JStr ''x''] once_heap) = Inl RuntimeTypeError \<and>
   target_get (snd (invoke env_spoil 0 [JStr ''x''] once_heap)) 0 (SKey ''mock'') = JNull"
  by (simp add: once_heap_def env_observe_def env_spoil_def eval_defs)

text \<open>
  C4, as the code has it. When the chosen behaviour of an invocation throws \<open>e\<close> and
  leaves the bookkeeping object intact, the invocation pushes
  \<^verbatim>\<open>{type: 'throw', value: e}\<close> on the outcome log and throws \<open>e\<close>; when it returns \<open>x\<close>
  and leaves the bookkeeping object intact, the invocation pushes
  \<^verbatim>\<open>{type: 'return', value: x}\<close> and returns \<open>x\<close>.
\<close>

theorem invoke_records_outcome:
  assumes "behaviour_run env a args h = Some r" and "isMock (snd r) (Fn a) = Inr True"
  shows "fst (invoke env a args h) = fst r \<and>
         result_log (snd (invoke env a args h)) a =
           result_log (snd r) a @
             [case fst r of
                Inl e \<Rightarrow> JObj [(''type'', JStr ''throw''), (''value'', e)]
              | Inr x \<Rightarrow> JObj [(''type'', JStr ''return''), (''value'', x)]] \<and>
         call_log (snd (invoke env a args h)) a = call_log (snd r) a"
proof -
  obtain out h2 where r: "r = (out, h2)" by (cases r)
  from assms(1) r obtain toCall h1 where
    e: "enter a args h = Some (toCall, h1)" and u: "run_impl env toCall args h1 = (out, h2)"
    by (auto simp: behaviour_run_def split: option.splits)
  from assms(2) r obtain cs rs where l: "logs_at h2 a = Some (cs, rs)"
    by (auto simp: isMock_Fn_logs)
  from leave_logs [OF l, of out] obtain h3 where
    v: "leave a out h2 = (out, h3)" and l3: "logs_at h3 a = Some (cs, rs @ [result_entry out])"
    by blast
  have i: "invoke env a args h = (out, h3)"
    using e u v by (simp add: invoke_def)
  show ?thesis
    using i r logs_at_logs [OF l] logs_at_logs [OF l3]
    by (cases out) (simp_all add: result_entry_def)
qed

theorem invoke_records_outcome_witness:
  "map_option fst (behaviour_run env_throw 0 [] once_heap) = Some (Inl (JStr ''boom'')) \<and>
   isMock (snd (the (behaviour_run env_throw 0 [] once_heap))) (Fn 0) = Inr True \<and>
   fst (invoke env_throw 0 [] once_heap) = Inl (JStr ''boom'') \<and>
   result_log (snd (invoke env_throw 0 [] once_heap)) 0
     = [JObj [(''type'', JStr ''throw''), (''value'', JStr ''boom'')]] \<and>
   map_option fst (behaviour_run env_const 0 [] once_heap) = Some (Inr (JNum 1)) \<and>
   fst (invoke env_const 0 [] once_heap) = Inr (JNum 1) \<and>
   result_log (snd (invoke env_const 0 [] once_heap)) 0
     = [JObj [(''type'', JStr ''return''), (''value'', JNum 1)]]"
  using invoke_records_outcome [of env_throw 0 "[]" once_heap "the (behaviour_run env_throw 0 [] once_heap)"]
        invoke_records_outcome [of env_const 0 "[]" once_heap "the (behaviour_run env_const 0 [] once_heap)"]
  by (simp add: once_heap_def env_throw_def env_const_def behaviour_run_def eval_defs)

text \<open>
  C4 as stated fails when the behaviour overwrites the bookkeeping object before it
  throws: the push in the \<^verbatim>\<open>catch\<close> block raises, and the caller gets that TypeError
  instead of the error of the behaviour.
\<close>

theorem behaviour_breaks_bookkeeping:
  "map_option fst (behaviour_run env_break 0 [] once_heap) = Some (Inl (JStr ''boom'')) \<and>
   fst (invoke env_break 0 [] once_heap) = Inl RuntimeTypeError"
  by (simp add: once_heap_def env_break_def behaviour_run_def eval_defs)

end
